theory Spec2Isabelle
  imports Main
begin

section \<open>JavaScript strings\<close>

text \<open>
  The strings of \<^verbatim>\<open>src/App.jsx\<close> are modelled as \<^typ>\<open>string\<close>, read as the UTF-8
  bytes of the JavaScript string. The patterns the program searches for are ASCII, and an
  ASCII byte never occurs inside a multi-byte UTF-8 sequence, so searching and replacing
  them bytewise agrees with searching the UTF-16 string.
\<close>

text \<open>\<^verbatim>\<open>s.startsWith(pat)\<close>: \<open>pat\<close> is a prefix of \<open>s\<close>.\<close>

fun startsWith :: "string \<Rightarrow> string \<Rightarrow> bool" where
  "startsWith s [] = True"
| "startsWith [] (p # ps) = False"
| "startsWith (c # cs) (p # ps) = (c = p \<and> startsWith cs ps)"

text \<open>\<^verbatim>\<open>s.endsWith(suf)\<close>.\<close>

definition endsWith :: "string \<Rightarrow> string \<Rightarrow> bool" where
  "endsWith s suf = startsWith (rev s) (rev suf)"

text \<open>\<^verbatim>\<open>s.includes(pat)\<close>: \<open>pat\<close> occurs somewhere in \<open>s\<close>.\<close>

fun includes_str :: "string \<Rightarrow> string \<Rightarrow> bool" where
  "includes_str [] pat = startsWith [] pat"
| "includes_str (c # cs) pat = (startsWith (c # cs) pat \<or> includes_str cs pat)"

text \<open>
  \<^verbatim>\<open>s.replace(pat, rep)\<close> with a string pattern: only the first (leftmost) occurrence of
  \<open>pat\<close> is replaced; without an occurrence the string is returned as it is. The
  replacement strings of the program contain no \<^verbatim>\<open>$\<close>, so they are inserted literally.
\<close>

fun replace :: "string \<Rightarrow> string \<Rightarrow> string \<Rightarrow> string" where
  "replace [] pat rep = (if startsWith [] pat then rep else [])"
| "replace (c # cs) pat rep =
     (if startsWith (c # cs) pat then rep @ drop (length pat) (c # cs)
      else c # replace cs pat rep)"

text \<open>
  \<^verbatim>\<open>u.replace(/\/$/, '')\<close>: the regular expression has no \<^verbatim>\<open>m\<close> flag, so \<^verbatim>\<open>$\<close>
  matches at the end of the input only; exactly one trailing slash is removed.
\<close>

definition stripTrailingSlash :: "string \<Rightarrow> string" where
  "stripTrailingSlash u = (if u \<noteq> [] \<and> last u = CHR ''/'' then butlast u else u)"

text \<open>
  \<^verbatim>\<open>Array.from(new Set(xs))\<close>: a \<^verbatim>\<open>Set\<close> iterates in insertion order, and adding
  a value that is already a member changes nothing, so the first occurrence of every value
  is kept, in order.
\<close>

definition set_add :: "'a list \<Rightarrow> 'a \<Rightarrow> 'a list" where
  "set_add acc x = (if x \<in> set acc then acc else acc @ [x])"

definition array_from_set :: "'a list \<Rightarrow> 'a list" where
  "array_from_set xs = foldl set_add [] xs"

text \<open>
  \<^verbatim>\<open>encodeURIComponent(s)\<close>: every UTF-8 byte outside the unreserved set
  \<^verbatim>\<open>A-Z a-z 0-9 - _ . ! ~ * ' ( )\<close> is written as \<^verbatim>\<open>%XX\<close> with upper-case hex
  digits. (A lone surrogate, on which JavaScript raises \<^verbatim>\<open>URIError\<close>, has no UTF-8
  form and so is not a value of the model's string type.)
\<close>

definition unreserved :: "char \<Rightarrow> bool" where
  "unreserved c =
     (c \<in> set (''ABCDEFGHIJKLMNOPQRSTUVWXYZabcdefghijklmnopqrstuvwxyz0123456789-_.!~*()''
               @ [CHR 0x27]))"

definition hexDigit :: "nat \<Rightarrow> char" where
  "hexDigit n = ''0123456789ABCDEF'' ! (n mod 16)"

definition encodeURIComponent :: "string \<Rightarrow> string" where
  "encodeURIComponent s =
     concat (map (\<lambda>c. if unreserved c then [c]
                       else [CHR ''%'', hexDigit (of_char c div 16), hexDigit (of_char c)]) s)"

section \<open>Endpoint resolver\<close>

text \<open>
  \<^verbatim>\<open>tryDeriveBackendURLs\<close> (lines 6-26) reads two things from its surroundings, which
  the model takes as arguments:
  \<^item> \<^verbatim>\<open>import.meta.env.VITE_BACKEND_URL\<close>, a string or \<^verbatim>\<open>undefined\<close>
    (\<open>None\<close>); the test \<^verbatim>\<open>if (envUrl)\<close> is true for a non-empty string only;
  \<^item> \<^verbatim>\<open>window.location\<close>, as the pair (protocol, host); \<open>None\<close> stands for the
    read raising an exception, which the \<^verbatim>\<open>try { ... } catch {}\<close> swallows before
    anything was pushed.
\<close>

text \<open>Line 13: \<^verbatim>\<open>host.replace('3000', '8000')\<close>.\<close>

definition byPort :: "string \<Rightarrow> string" where
  "byPort host = replace host ''3000'' ''8000''"

text \<open>Line 18: \<^verbatim>\<open>host.replace('-3000', '-8000').replace('.run', '-api.run')\<close>.\<close>

definition apiHost :: "string \<Rightarrow> string" where
  "apiHost host = replace (replace host ''-3000'' ''-8000'') ''.run'' ''-api.run''"

text \<open>The array \<^verbatim>\<open>urls\<close> when line 25 is reached (lines 8-23).\<close>

definition urls_pushed :: "string option \<Rightarrow> (string \<times> string) option \<Rightarrow> string list" where
  "urls_pushed envUrl location =
     (case envUrl of
        None \<Rightarrow> []
      | Some e \<Rightarrow> if e \<noteq> [] then [e] else [])
     @ (case location of
          None \<Rightarrow> []
        | Some (protocol, host) \<Rightarrow>
            [protocol @ ''//'' @ byPort host]
            @ (if includes_str host ''-3000'' then [protocol @ ''//'' @ apiHost host] else []))
     @ ['''']"

text \<open>Line 25: every entry loses one trailing slash, then duplicates are dropped.\<close>

definition tryDeriveBackendURLs :: "string option \<Rightarrow> (string \<times> string) option \<Rightarrow> string list" where
  "tryDeriveBackendURLs envUrl location =
     array_from_set (map stripTrailingSlash (urls_pushed envUrl location))"

section \<open>Resilient fetch client\<close>

text \<open>
  The value a response body parses to. Only the truthiness of a number matters to the
  program, so numbers are integers here. An object is the list of its properties, each key
  once.
\<close>

datatype json =
    JNull
  | JBool bool
  | JNum int
  | JStr string
  | JArr "json list"
  | JObj "(string \<times> json) list"

text \<open>
  The errors \<^verbatim>\<open>apiGet\<close> can throw: \<^verbatim>\<open>new Error(`HTTP ${res.status}`)\<close>, a value
  thrown by \<^verbatim>\<open>fetch\<close> or by \<^verbatim>\<open>res.json()\<close> (an exception object, named by its
  message; exception objects are truthy), and \<^verbatim>\<open>new Error('No backend reachable')\<close>.
\<close>

datatype js_error =
    HttpError nat
  | Thrown string
  | NoBackendReachable

text \<open>
  What \<^verbatim>\<open>await fetch(url)\<close> does: it throws, or it gives a response with its
  \<^verbatim>\<open>ok\<close> flag, its \<^verbatim>\<open>status\<close> and what \<^verbatim>\<open>await res.json()\<close> does on it
  (throw, \<open>Inl\<close>, or parse to a value, \<open>Inr\<close>).
\<close>

datatype fetch_outcome =
    Rejected string
  | Response (ok: bool) (status: nat) (body: "string + json")

text \<open>
  The loop of \<^verbatim>\<open>apiGet\<close> (lines 30-41) over the candidates still to try, with the
  current \<^verbatim>\<open>lastErr\<close> (\<open>None\<close> for \<^verbatim>\<open>undefined\<close>). The network is a function
  from the URL to the outcome of fetching it during this call. The result is the list of the
  URLs fetched, in order, with the value returned (\<open>Inr\<close>) or the error thrown (\<open>Inl\<close>).
\<close>

fun apiGet_loop ::
  "(string \<Rightarrow> fetch_outcome) \<Rightarrow> string \<Rightarrow> string list \<Rightarrow> js_error option
     \<Rightarrow> string list \<times> (js_error + json)" where
  "apiGet_loop fetch path [] lastErr =
     ([], Inl (case lastErr of Some e \<Rightarrow> e | None \<Rightarrow> NoBackendReachable))"
| "apiGet_loop fetch path (base # bases) lastErr =
     (let url = base @ path in
      case fetch url of
        Rejected e \<Rightarrow>
          (let (t, r) = apiGet_loop fetch path bases (Some (Thrown e)) in (url # t, r))
      | Response res_ok res_status res_json \<Rightarrow>
          if res_ok then
            (case res_json of
               Inr v \<Rightarrow> ([url], Inr v)
             | Inl e \<Rightarrow>
                 (let (t, r) = apiGet_loop fetch path bases (Some (Thrown e)) in (url # t, r)))
          else
            (let (t, r) = apiGet_loop fetch path bases (Some (HttpError res_status))
             in (url # t, r)))"

text \<open>What the program runs in: the configuration, the page's location and the network.\<close>

record runtime =
  VITE_BACKEND_URL :: "string option"
  window_location :: "(string \<times> string) option"
  fetch :: "string \<Rightarrow> fetch_outcome"

definition apiGet :: "runtime \<Rightarrow> string \<Rightarrow> string list \<times> (js_error + json)" where
  "apiGet rt path =
     (let bases = tryDeriveBackendURLs (VITE_BACKEND_URL rt) (window_location rt)
      in apiGet_loop (fetch rt) path bases None)"

text \<open>A candidate succeeds when its response is ok and its body parses.\<close>

fun succeeds :: "fetch_outcome \<Rightarrow> bool" where
  "succeeds (Response True st (Inr v)) = True"
| "succeeds _ = False"

text \<open>The error the loop records for a candidate that does not succeed.\<close>

fun failure_of :: "fetch_outcome \<Rightarrow> js_error" where
  "failure_of (Rejected e) = Thrown e"
| "failure_of (Response res_ok st b) =
     (if res_ok then (case b of Inl e \<Rightarrow> Thrown e | Inr v \<Rightarrow> HttpError st)
      else HttpError st)"

section \<open>Navigation state machine\<close>

datatype stage =
    Menu
  | FrontendTech
  | FrontendProjects
  | UiuxFocus
  | UiuxGallery
  | Reviews
  | Contact

text \<open>
  The state of the component \<^verbatim>\<open>App\<close> (lines 83-98). A selection is \<^verbatim>\<open>null\<close>
  (\<open>None\<close>) or the chosen name. The initial hint has an em dash, three bytes in UTF-8.
\<close>

record app_state =
  stage :: stage
  menuItems :: json
  techItems :: json
  designFocus :: json
  reviews :: json
  contacts :: json
  selectedTech :: "string option"
  projects :: json
  selectedFocus :: "string option"
  gallery :: json
  loading :: bool
  hint :: string
  error :: string

definition initial_state :: app_state where
  "initial_state =
     \<lparr> stage = Menu, menuItems = JArr [], techItems = JArr [], designFocus = JArr [],
       reviews = JArr [], contacts = JArr [], selectedTech = None, projects = JArr [],
       selectedFocus = None, gallery = JArr [], loading = True,
       hint = ''Move your mouse '' @ [CHR 0xE2, CHR 0x80, CHR 0x94]
                @ '' the console reacts to you'',
       error = '''' \<rparr>"

text \<open>JavaScript truthiness of a parsed value.\<close>

fun truthy :: "json \<Rightarrow> bool" where
  "truthy JNull = False"
| "truthy (JBool b) = b"
| "truthy (JNum n) = (n \<noteq> 0)"
| "truthy (JStr s) = (s \<noteq> [])"
| "truthy (JArr xs) = True"
| "truthy (JObj kvs) = True"

text \<open>
  \<^verbatim>\<open>data.key || []\<close>: reading a property of \<^verbatim>\<open>null\<close> throws a
  \<^verbatim>\<open>TypeError\<close> (\<open>None\<close>); a boolean, a number, a string and an array have no such
  property, which gives \<^verbatim>\<open>undefined\<close> and so \<^verbatim>\<open>[]\<close>; an object gives the
  property's value when it is truthy and \<^verbatim>\<open>[]\<close> otherwise.
\<close>

fun prop_or_empty :: "json \<Rightarrow> string \<Rightarrow> json option" where
  "prop_or_empty JNull key = None"
| "prop_or_empty (JObj kvs) key =
     (case map_of kvs key of
        Some v \<Rightarrow> Some (if truthy v then v else JArr [])
      | None \<Rightarrow> Some (JArr []))"
| "prop_or_empty _ key = Some (JArr [])"

text \<open>\<^verbatim>\<open>goBack\<close> (lines 135-140).\<close>

definition goBack :: "app_state \<Rightarrow> app_state" where
  "goBack s =
     (if stage s = FrontendProjects then s\<lparr>stage := FrontendTech\<rparr>
      else if stage s = FrontendTech \<or> stage s = UiuxFocus \<or> stage s = Reviews
              \<or> stage s = Contact then s\<lparr>stage := Menu\<rparr>
      else if stage s = UiuxGallery then s\<lparr>stage := UiuxFocus\<rparr>
      else s\<lparr>stage := Menu\<rparr>)"

definition openFrontend :: "app_state \<Rightarrow> app_state" where
  "openFrontend s = s\<lparr>stage := FrontendTech\<rparr>"

definition openUIUX :: "app_state \<Rightarrow> app_state" where
  "openUIUX s = s\<lparr>stage := UiuxFocus\<rparr>"

definition openReviews :: "app_state \<Rightarrow> app_state" where
  "openReviews s = s\<lparr>stage := Reviews\<rparr>"

definition openContact :: "app_state \<Rightarrow> app_state" where
  "openContact s = s\<lparr>stage := Contact\<rparr>"

text \<open>
  \<^verbatim>\<open>confirmTech\<close> (lines 146-158). The result is the list of the URLs fetched and the
  new state. A selection is falsy when it is \<^verbatim>\<open>null\<close> or the empty string.
\<close>

definition confirmTech :: "runtime \<Rightarrow> app_state \<Rightarrow> string list \<times> app_state" where
  "confirmTech rt s =
     (case selectedTech s of
        None \<Rightarrow> ([], s)
      | Some t \<Rightarrow>
          if t = [] then ([], s)
          else
            (let s1 = s\<lparr>loading := True\<rparr>;
                 (trace, r) = apiGet rt (''/api/projects?tech='' @ encodeURIComponent t);
                 s2 = (case r of
                         Inl e \<Rightarrow> s1\<lparr>error := ''Could not load projects''\<rparr>
                       | Inr data \<Rightarrow>
                           (case prop_or_empty data ''projects'' of
                              None \<Rightarrow> s1\<lparr>error := ''Could not load projects''\<rparr>
                            | Some v \<Rightarrow> s1\<lparr>projects := v, stage := FrontendProjects\<rparr>))
             in (trace, s2\<lparr>loading := False\<rparr>)))"

text \<open>\<^verbatim>\<open>confirmFocus\<close> (lines 161-173).\<close>

definition confirmFocus :: "runtime \<Rightarrow> app_state \<Rightarrow> string list \<times> app_state" where
  "confirmFocus rt s =
     (case selectedFocus s of
        None \<Rightarrow> ([], s)
      | Some f \<Rightarrow>
          if f = [] then ([], s)
          else
            (let s1 = s\<lparr>loading := True\<rparr>;
                 (trace, r) = apiGet rt (''/api/design/gallery?focus='' @ encodeURIComponent f);
                 s2 = (case r of
                         Inl e \<Rightarrow> s1\<lparr>error := ''Could not load gallery''\<rparr>
                       | Inr data \<Rightarrow>
                           (case prop_or_empty data ''items'' of
                              None \<Rightarrow> s1\<lparr>error := ''Could not load gallery''\<rparr>
                            | Some v \<Rightarrow> s1\<lparr>gallery := v, stage := UiuxGallery\<rparr>))
             in (trace, s2\<lparr>loading := False\<rparr>)))"

text \<open>
  \<^verbatim>\<open>bootstrap\<close> (lines 102-124). \<^verbatim>\<open>Promise.all\<close> is fulfilled when all five
  calls of \<^verbatim>\<open>apiGet\<close> are, and rejected as soon as one of them is; the handler of the
  rejection does not look at the error. The five setters then run in order, and reading
  \<^verbatim>\<open>.items\<close> of a \<^verbatim>\<open>null\<close> body throws into the same handler after the
  setters before it have run. \<open>mounted\<close> is the flag of that name when the promise
  settles.
\<close>

definition bootstrap_error :: string where
  "bootstrap_error = ''Unable to reach backend. Set VITE_BACKEND_URL or retry in a moment.''"

definition bootstrap :: "runtime \<Rightarrow> bool \<Rightarrow> app_state \<Rightarrow> app_state" where
  "bootstrap rt mounted s =
     (let s0 = s\<lparr>loading := True, error := ''''\<rparr>;
          failed = s0\<lparr>error := bootstrap_error\<rparr>;
          s' =
            (case (snd (apiGet rt ''/api/menu''), snd (apiGet rt ''/api/frontend/tech''),
                   snd (apiGet rt ''/api/design/focus''), snd (apiGet rt ''/api/reviews''),
                   snd (apiGet rt ''/api/contact'')) of
               (Inr menuRes, Inr techRes, Inr focusRes, Inr reviewsRes, Inr contactRes) \<Rightarrow>
                 if \<not> mounted then s0
                 else
                   (case prop_or_empty menuRes ''items'' of
                      None \<Rightarrow> failed
                    | Some m \<Rightarrow>
                   (case prop_or_empty techRes ''items'' of
                      None \<Rightarrow> failed\<lparr>menuItems := m\<rparr>
                    | Some t \<Rightarrow>
                   (case prop_or_empty focusRes ''items'' of
                      None \<Rightarrow> failed\<lparr>menuItems := m, techItems := t\<rparr>
                    | Some f \<Rightarrow>
                   (case prop_or_empty reviewsRes ''items'' of
                      None \<Rightarrow> failed\<lparr>menuItems := m, techItems := t, designFocus := f\<rparr>
                    | Some r \<Rightarrow>
                   (case prop_or_empty contactRes ''items'' of
                      None \<Rightarrow> failed\<lparr>menuItems := m, techItems := t, designFocus := f,
                                      reviews := r\<rparr>
                    | Some c \<Rightarrow> s0\<lparr>menuItems := m, techItems := t, designFocus := f,
                                      reviews := r, contacts := c\<rparr>)))))
             | _ \<Rightarrow> failed)
      in s'\<lparr>loading := False\<rparr>)"

section \<open>Facts about the string and set helpers\<close>

lemma startsWith_iff: "startsWith s pat \<longleftrightarrow> (\<exists>r. s = pat @ r)"
  by (induction s pat rule: startsWith.induct) auto

lemma replace_no_occurrence: "\<not> includes_str s pat \<Longrightarrow> replace s pat rep = s"
  by (induction s) auto

text \<open>Replacing \<^verbatim>\<open>3000\<close> by \<^verbatim>\<open>8000\<close> keeps the last character of a non-empty string.\<close>

lemma last_replace_3000:
  "h \<noteq> [] \<Longrightarrow> replace h ''3000'' ''8000'' \<noteq> [] \<and> last (replace h ''3000'' ''8000'') = last h"
proof (induction h)
  case Nil
  then show ?case by simp
next
  case (Cons c cs)
  show ?case
  proof (cases "startsWith (c # cs) ''3000''")
    case True
    then obtain r where r: "c # cs = ''3000'' @ r"
      unfolding startsWith_iff by blast
    have "replace (c # cs) ''3000'' ''8000'' = ''8000'' @ r"
      using True r by (simp del: startsWith.simps)
    then show ?thesis using r by (cases r rule: rev_cases) auto
  next
    case False
    then have eq: "replace (c # cs) ''3000'' ''8000'' = c # replace cs ''3000'' ''8000''"
      by (simp del: startsWith.simps)
    show ?thesis
    proof (cases cs)
      case Nil
      then show ?thesis using eq by simp
    next
      case (Cons d ds)
      then have "replace cs ''3000'' ''8000'' \<noteq> [] \<and> last (replace cs ''3000'' ''8000'') = last cs"
        using Cons.IH by blast
      then show ?thesis using eq Cons by simp
    qed
  qed
qed

lemma stripTrailingSlash_empty_iff: "stripTrailingSlash u = [] \<longleftrightarrow> u = [] \<or> u = ''/''"
proof (cases u rule: rev_cases)
  case Nil
  then show ?thesis by (simp add: stripTrailingSlash_def)
next
  case (snoc ys y)
  then show ?thesis by (auto simp: stripTrailingSlash_def)
qed

lemma stripTrailingSlash_empty_iff2: "[] = stripTrailingSlash u \<longleftrightarrow> u = [] \<or> u = ''/''"
  using stripTrailingSlash_empty_iff[of u] by auto

lemma set_set_add: "set (set_add acc x) = insert x (set acc)"
  by (auto simp: set_add_def)

lemma set_foldl_set_add: "set (foldl set_add acc xs) = set acc \<union> set xs"
  by (induction xs arbitrary: acc) (auto simp: set_set_add)

lemma set_array_from_set: "set (array_from_set xs) = set xs"
  by (simp add: array_from_set_def set_foldl_set_add)

lemma distinct_set_add: "distinct acc \<Longrightarrow> distinct (set_add acc x)"
  by (auto simp: set_add_def)

lemma distinct_foldl_set_add: "distinct acc \<Longrightarrow> distinct (foldl set_add acc xs)"
  by (induction xs arbitrary: acc) (auto simp: distinct_set_add)

lemma distinct_array_from_set: "distinct (array_from_set xs)"
  by (simp add: array_from_set_def distinct_foldl_set_add)

lemma array_from_set_snoc_new:
  "x \<notin> set xs \<Longrightarrow> array_from_set (xs @ [x]) = array_from_set xs @ [x]"
  by (simp add: array_from_set_def set_add_def set_foldl_set_add)

lemma takeWhile_snoc_hit: "\<forall>x\<in>set xs. P x \<Longrightarrow> \<not> P y \<Longrightarrow> takeWhile P (xs @ [y]) = xs"
  by (induction xs) auto

section \<open>The endpoint resolver\<close>

lemma origin_not_slash: "p @ ''//'' @ h \<noteq> [] \<and> p @ ''//'' @ h \<noteq> ''/''"
  by (cases p) auto

text \<open>
  Unless the override is exactly \<^verbatim>\<open>/\<close>, nothing pushed before the final empty string
  normalises to the empty string.
\<close>

lemma empty_notin_pushed_prefix:
  assumes "envUrl \<noteq> Some ''/''"
  shows "\<exists>us. urls_pushed envUrl location = us @ [''''] \<and> [] \<notin> set (map stripTrailingSlash us)"
  using assms origin_not_slash
  by (auto simp: urls_pushed_def stripTrailingSlash_empty_iff2
      split: option.splits)

lemma tryDerive_snoc:
  assumes "envUrl \<noteq> Some ''/''"
  shows "\<exists>cs. tryDeriveBackendURLs envUrl location = cs @ [''''] \<and> [] \<notin> set cs
     \<and> set cs = stripTrailingSlash ` (set (urls_pushed envUrl location) - {[]})"
proof -
  obtain us where us: "urls_pushed envUrl location = us @ ['''']"
    and ne: "[] \<notin> set (map stripTrailingSlash us)"
    using empty_notin_pushed_prefix[OF assms] by blast
  have "tryDeriveBackendURLs envUrl location = array_from_set (map stripTrailingSlash us @ [''''])"
    by (simp add: tryDeriveBackendURLs_def us stripTrailingSlash_def)
  also have "\<dots> = array_from_set (map stripTrailingSlash us) @ ['''']"
    using ne by (rule array_from_set_snoc_new)
  finally have eq:
    "tryDeriveBackendURLs envUrl location = array_from_set (map stripTrailingSlash us) @ ['''']" .
  have "[] \<notin> set us" using ne by (auto simp: stripTrailingSlash_def image_iff)
  then have "set us = set (urls_pushed envUrl location) - {[]}"
    using us by auto
  then show ?thesis using eq ne by (simp add: set_array_from_set)
qed

lemma empty_in_tryDerive: "[] \<in> set (tryDeriveBackendURLs envUrl location)"
  by (simp add: tryDeriveBackendURLs_def set_array_from_set urls_pushed_def
      stripTrailingSlash_def image_iff)

lemma tryDerive_nonempty: "tryDeriveBackendURLs envUrl location \<noteq> []"
  using empty_in_tryDerive[of envUrl location] by auto

text \<open>
  Claim C1, as the specification has it: for every host that contains \<^verbatim>\<open>-3000\<close> but
  does not end in \<^verbatim>\<open>.run\<close>, the returned list does not contain the hostname-rewrite
  candidate. The code tests \<^verbatim>\<open>host.includes('-3000')\<close> only. For the host
  \<^verbatim>\<open>app3000-3000.dev\<close>, in which \<^verbatim>\<open>.run\<close> does not occur at all, the rewrite
  candidate \<^verbatim>\<open>https://app3000-8000.dev\<close> is returned, as a third entry next to the
  port candidate.
\<close>

theorem rewrite_candidate_without_run_suffix:
  "includes_str ''app3000-3000.dev'' ''-3000''
   \<and> \<not> endsWith ''app3000-3000.dev'' ''.run''
   \<and> \<not> includes_str ''app3000-3000.dev'' ''.run''
   \<and> ''https:'' @ ''//'' @ apiHost ''app3000-3000.dev'' = ''https://app3000-8000.dev''
   \<and> tryDeriveBackendURLs None (Some (''https:'', ''app3000-3000.dev''))
       = [''https://app8000-3000.dev'', ''https://app3000-8000.dev'', '''']"
  by code_simp

text \<open>
  Claim C1, amended: the hostname-rewrite candidate is produced whenever the host contains
  \<^verbatim>\<open>-3000\<close>, whether or not \<^verbatim>\<open>.run\<close> occurs in it: for every host containing
  \<^verbatim>\<open>-3000\<close> the returned list contains scheme + \<^verbatim>\<open>//\<close> + the host with its first
  \<^verbatim>\<open>-3000\<close> replaced by \<^verbatim>\<open>-8000\<close> and then its first \<^verbatim>\<open>.run\<close>, if there is
  one, replaced by \<^verbatim>\<open>-api.run\<close> (less one trailing slash); for every host not
  containing \<^verbatim>\<open>-3000\<close> every entry of the returned list is the empty string, the
  normalised port candidate or the normalised override.
\<close>

theorem rewrite_candidate_iff_dash_3000:
  "(includes_str host ''-3000'' \<longrightarrow>
      stripTrailingSlash (protocol @ ''//'' @ apiHost host)
        \<in> set (tryDeriveBackendURLs envUrl (Some (protocol, host))))
   \<and> (\<not> includes_str host ''-3000'' \<longrightarrow>
      set (tryDeriveBackendURLs envUrl (Some (protocol, host)))
        \<subseteq> insert [] (insert (stripTrailingSlash (protocol @ ''//'' @ byPort host))
                            (stripTrailingSlash ` set_option envUrl)))"
  by (auto simp: tryDeriveBackendURLs_def set_array_from_set urls_pushed_def
      stripTrailingSlash_empty_iff split: option.splits if_splits)

text \<open>
  Both parts at concrete hosts: \<^verbatim>\<open>app-3000.modal.run\<close> contains \<^verbatim>\<open>-3000\<close>, and
  \<^verbatim>\<open>localhost:3000\<close> does not.
\<close>

theorem rewrite_candidate_iff_dash_3000_witness:
  "stripTrailingSlash (''https:'' @ ''//'' @ apiHost ''app-3000.modal.run'')
     \<in> set (tryDeriveBackendURLs None (Some (''https:'', ''app-3000.modal.run'')))
   \<and> set (tryDeriveBackendURLs None (Some (''http:'', ''localhost:3000'')))
       \<subseteq> {[], ''http://localhost:8000''}"
proof -
  have a: "includes_str ''app-3000.modal.run'' ''-3000''" by code_simp
  have b: "\<not> includes_str ''localhost:3000'' ''-3000''" by code_simp
  have c: "stripTrailingSlash (''http:'' @ ''//'' @ byPort ''localhost:3000'')
             = ''http://localhost:8000''"
    by code_simp
  show ?thesis
    using rewrite_candidate_iff_dash_3000[of "''app-3000.modal.run''" "''https:''" None]
      rewrite_candidate_iff_dash_3000[of "''localhost:3000''" "''http:''" None] a b c
    by simp
qed

text \<open>
  Claim C3, as the specification has it: for every override and host the empty string is in
  the returned list and is its last element. With the override \<^verbatim>\<open>/\<close> the first pushed
  entry normalises to the empty string, and the set keeps that first occurrence: the empty
  string is the first element, not the last.
\<close>

theorem fallback_first_with_slash_override:
  "tryDeriveBackendURLs (Some ''/'') (Some (''http:'', ''localhost:3000''))
     = ['''', ''http://localhost:8000'']
   \<and> last (tryDeriveBackendURLs (Some ''/'') (Some (''http:'', ''localhost:3000''))) \<noteq> ''''"
  by code_simp

text \<open>
  Claim C3, amended: for every override and location the returned list contains the empty
  string and has no duplicates, and the empty string is its last element whenever the
  override is not exactly \<^verbatim>\<open>/\<close>.
\<close>

theorem fallback_present_and_last:
  "[] \<in> set (tryDeriveBackendURLs envUrl location)
   \<and> distinct (tryDeriveBackendURLs envUrl location)
   \<and> (envUrl \<noteq> Some ''/'' \<longrightarrow> last (tryDeriveBackendURLs envUrl location) = [])"
proof -
  have "distinct (tryDeriveBackendURLs envUrl location)"
    by (simp add: tryDeriveBackendURLs_def distinct_array_from_set)
  moreover have "envUrl \<noteq> Some ''/'' \<longrightarrow> last (tryDeriveBackendURLs envUrl location) = []"
    using tryDerive_snoc[of envUrl location] by auto
  ultimately show ?thesis using empty_in_tryDerive by blast
qed

theorem fallback_present_and_last_witness:
  "last (tryDeriveBackendURLs (Some ''https://api.example.org/'')
           (Some (''http:'', ''localhost:3000''))) = []"
  using fallback_present_and_last[of "Some ''https://api.example.org/''"
      "Some (''http:'', ''localhost:3000'')"]
  by simp

text \<open>
  Claim C9, as stated: for every host the list contains scheme + \<^verbatim>\<open>//\<close> + the host
  with its first \<^verbatim>\<open>3000\<close> replaced, and for a host without \<^verbatim>\<open>3000\<close> the origin
  appears verbatim before the empty-string fallback. Two inputs show where this fails. A page
  opened from a file has the protocol \<^verbatim>\<open>file:\<close> and an empty host: the candidate
  \<^verbatim>\<open>file://\<close> loses its trailing slash in line 25, so the list holds \<^verbatim>\<open>file:/\<close>
  instead. With the override \<^verbatim>\<open>/\<close> the empty string comes first, so the origin
  appears after it.
\<close>

theorem port_candidate_normalised_or_after_fallback:
  "\<not> includes_str '''' ''3000''
   \<and> ''file:'' @ ''//'' @ byPort '''' = ''file://''
   \<and> tryDeriveBackendURLs None (Some (''file:'', '''')) = [''file:/'', '''']
   \<and> \<not> includes_str ''example.org'' ''3000''
   \<and> tryDeriveBackendURLs (Some ''/'') (Some (''https:'', ''example.org''))
       = ['''', ''https://example.org'']"
  by code_simp

text \<open>
  Claim C9, amended: the port-substitution candidate is pushed unconditionally, and the list
  contains it less one trailing slash; for every non-empty host that does not end in a slash
  the list contains scheme + \<^verbatim>\<open>//\<close> + (host with its first \<^verbatim>\<open>3000\<close> replaced by
  \<^verbatim>\<open>8000\<close>) verbatim; for a host without \<^verbatim>\<open>3000\<close> that is the origin itself; and
  it stands before the empty-string fallback whenever the override is not exactly
  \<^verbatim>\<open>/\<close>.
\<close>

theorem port_candidate_pushed:
  "stripTrailingSlash (protocol @ ''//'' @ byPort host)
     \<in> set (tryDeriveBackendURLs envUrl (Some (protocol, host)))
   \<and> (host \<noteq> [] \<and> last host \<noteq> CHR ''/'' \<longrightarrow>
        protocol @ ''//'' @ byPort host \<in> set (tryDeriveBackendURLs envUrl (Some (protocol, host))))
   \<and> (\<not> includes_str host ''3000'' \<longrightarrow> byPort host = host)
   \<and> (host \<noteq> [] \<and> last host \<noteq> CHR ''/'' \<and> envUrl \<noteq> Some ''/'' \<longrightarrow>
        protocol @ ''//'' @ byPort host
          \<in> set (takeWhile (\<lambda>u. u \<noteq> []) (tryDeriveBackendURLs envUrl (Some (protocol, host)))))"
proof -
  let ?L = "tryDeriveBackendURLs envUrl (Some (protocol, host))"
  let ?c = "protocol @ ''//'' @ byPort host"
  have pushed: "?c \<in> set (urls_pushed envUrl (Some (protocol, host)))"
    by (simp add: urls_pushed_def)
  have 1: "stripTrailingSlash ?c \<in> set ?L"
    using pushed by (simp add: tryDeriveBackendURLs_def set_array_from_set)
  have id: "stripTrailingSlash ?c = ?c" if "host \<noteq> []" "last host \<noteq> CHR ''/''"
  proof -
    have "byPort host \<noteq> [] \<and> last (byPort host) = last host"
      using last_replace_3000[OF that(1)] by (simp add: byPort_def)
    then show ?thesis using that(2) by (simp add: stripTrailingSlash_def)
  qed
  have 2: "host \<noteq> [] \<and> last host \<noteq> CHR ''/'' \<longrightarrow> ?c \<in> set ?L"
    using 1 id by auto
  have 3: "\<not> includes_str host ''3000'' \<longrightarrow> byPort host = host"
    by (simp add: byPort_def replace_no_occurrence)
  have 4: "?c \<in> set (takeWhile (\<lambda>u. u \<noteq> []) ?L)"
    if h: "host \<noteq> []" "last host \<noteq> CHR ''/''" and e: "envUrl \<noteq> Some ''/''"
  proof -
    obtain cs where cs: "?L = cs @ ['''']" "[] \<notin> set cs"
      "set cs = stripTrailingSlash ` (set (urls_pushed envUrl (Some (protocol, host))) - {[]})"
      using tryDerive_snoc[OF e] by blast
    have "takeWhile (\<lambda>u. u \<noteq> []) ?L = cs"
      unfolding cs(1) using cs(2) by (intro takeWhile_snoc_hit) auto
    moreover have "?c \<in> set cs"
    proof -
      have "?c \<noteq> []" by simp
      then have "stripTrailingSlash ?c \<in> set cs"
        unfolding cs(3) using pushed by blast
      then show ?thesis using id[OF h] by simp
    qed
    ultimately show ?thesis by simp
  qed
  show ?thesis using 1 2 3 4 by blast
qed

theorem port_candidate_pushed_witness:
  "''http://localhost:8000''
     \<in> set (tryDeriveBackendURLs None (Some (''http:'', ''localhost:3000'')))
   \<and> ''https://example.org''
        \<in> set (takeWhile (\<lambda>u. u \<noteq> [])
                 (tryDeriveBackendURLs None (Some (''https:'', ''example.org''))))"
proof -
  have a: "byPort ''localhost:3000'' = ''localhost:8000''" by code_simp
  have b: "byPort ''example.org'' = ''example.org''" by code_simp
  show ?thesis
    using port_candidate_pushed[of "''http:''" "''localhost:3000''" None]
      port_candidate_pushed[of "''https:''" "''example.org''" None]
    by (simp add: a b)
qed

section \<open>The fetch client\<close>

lemma succeeds_iff: "succeeds x \<longleftrightarrow> (\<exists>st v. x = Response True st (Inr v))"
  by (cases x rule: succeeds.cases) auto

lemma failure_of_not_default: "failure_of x \<noteq> NoBackendReachable"
  by (cases x) (auto split: sum.splits)

text \<open>One turn of the loop on a candidate that does not succeed.\<close>

lemma apiGet_loop_fail_step:
  "\<not> succeeds (net (base @ path)) \<Longrightarrow>
   apiGet_loop net path (base # bases) lastErr =
     (let (t, r) = apiGet_loop net path bases (Some (failure_of (net (base @ path))))
      in ((base @ path) # t, r))"
  by (cases "net (base @ path)") (auto split: sum.splits bool.splits)

lemma apiGet_loop_all_fail:
  "\<forall>b\<in>set bases. \<not> succeeds (net (b @ path)) \<Longrightarrow>
   apiGet_loop net path bases lastErr =
     (map (\<lambda>b. b @ path) bases,
      Inl (if bases = [] then (case lastErr of Some e \<Rightarrow> e | None \<Rightarrow> NoBackendReachable)
           else failure_of (net (last bases @ path))))"
proof (induction bases arbitrary: lastErr)
  case Nil
  then show ?case by simp
next
  case (Cons b bs)
  have f: "\<not> succeeds (net (b @ path))" using Cons.prems by simp
  have rest: "\<forall>b\<in>set bs. \<not> succeeds (net (b @ path))" using Cons.prems by simp
  show ?case
    unfolding apiGet_loop_fail_step[of net b path, OF f] Cons.IH[OF rest]
    by simp
qed

lemma apiGet_loop_first_success:
  "k < length bases \<Longrightarrow> \<forall>j<k. \<not> succeeds (net (bases ! j @ path)) \<Longrightarrow>
   net (bases ! k @ path) = Response True st (Inr v) \<Longrightarrow>
   apiGet_loop net path bases lastErr = (map (\<lambda>b. b @ path) (take (Suc k) bases), Inr v)"
proof (induction bases arbitrary: k lastErr)
  case Nil
  then show ?case by simp
next
  case (Cons b bs)
  show ?case
  proof (cases k)
    case 0
    then have "net (b @ path) = Response True st (Inr v)" using Cons.prems(3) by simp
    then show ?thesis using 0 by simp
  next
    case (Suc k')
    have f: "\<not> succeeds (net (b @ path))" using Cons.prems(2) Suc by auto
    have a: "k' < length bs" using Cons.prems(1) Suc by simp
    have b: "\<forall>j<k'. \<not> succeeds (net (bs ! j @ path))"
      using Cons.prems(2) Suc by auto
    have c: "net (bs ! k' @ path) = Response True st (Inr v)"
      using Cons.prems(3) Suc by simp
    show ?thesis
      unfolding apiGet_loop_fail_step[of net b path, OF f] Cons.IH[OF a b c] using Suc by simp
  qed
qed

lemma apiGet_loop_trace_nonempty:
  "bases \<noteq> [] \<Longrightarrow> fst (apiGet_loop net path bases lastErr) \<noteq> []"
proof (cases bases)
  case Nil
  assume "bases \<noteq> []"
  with Nil show ?thesis by simp
next
  case (Cons b bs)
  show ?thesis
  proof (cases "succeeds (net (b @ path))")
    case True
    then show ?thesis unfolding Cons succeeds_iff by auto
  next
    case False
    show ?thesis unfolding Cons apiGet_loop_fail_step[of net b path, OF False]
      by (simp add: case_prod_beta)
  qed
qed

text \<open>Once \<^verbatim>\<open>lastErr\<close> holds a recorded failure, the default error is never thrown.\<close>

lemma apiGet_loop_error:
  "e \<noteq> NoBackendReachable \<Longrightarrow>
   snd (apiGet_loop net path bases (Some e)) \<noteq> Inl NoBackendReachable"
proof (induction bases arbitrary: e)
  case Nil
  then show ?case by simp
next
  case (Cons b bs)
  show ?case
  proof (cases "succeeds (net (b @ path))")
    case True
    then show ?thesis unfolding succeeds_iff by auto
  next
    case False
    show ?thesis unfolding apiGet_loop_fail_step[of net b path, OF False]
      using Cons.IH[OF failure_of_not_default] by (simp add: case_prod_beta)
  qed
qed

lemma apiGet_loop_error_first:
  "bases \<noteq> [] \<Longrightarrow> snd (apiGet_loop net path bases None) \<noteq> Inl NoBackendReachable"
proof (cases bases)
  case Nil
  assume "bases \<noteq> []"
  with Nil show ?thesis by simp
next
  case (Cons b bs)
  show ?thesis
  proof (cases "succeeds (net (b @ path))")
    case True
    then show ?thesis unfolding Cons succeeds_iff by auto
  next
    case False
    show ?thesis unfolding Cons apiGet_loop_fail_step[of net b path, OF False]
      using apiGet_loop_error[OF failure_of_not_default] by (simp add: case_prod_beta)
  qed
qed

text \<open>
  Claim C4: let the candidates be the list the resolver returns for the call. When the
  candidate at index \<open>k\<close> (counting from 0, so the \<open>k + 1\<close>-th candidate) is the first
  whose response is ok and parses, \<^verbatim>\<open>apiGet\<close> fetches exactly the first \<open>k + 1\<close>
  candidates' URLs, in candidate order, returns that candidate's parsed body and fetches
  nothing after it.
\<close>

theorem apiGet_first_success:
  assumes "k < length (tryDeriveBackendURLs (VITE_BACKEND_URL rt) (window_location rt))"
    and "\<forall>j<k. \<not> succeeds
           (fetch rt (tryDeriveBackendURLs (VITE_BACKEND_URL rt) (window_location rt) ! j @ path))"
    and "fetch rt (tryDeriveBackendURLs (VITE_BACKEND_URL rt) (window_location rt) ! k @ path)
           = Response True st (Inr v)"
  shows "apiGet rt path =
           (map (\<lambda>b. b @ path)
              (take (Suc k) (tryDeriveBackendURLs (VITE_BACKEND_URL rt) (window_location rt))),
            Inr v)
     \<and> length (fst (apiGet rt path)) = Suc k"
  using apiGet_loop_first_success[OF assms, of None] assms(1) by (simp add: apiGet_def)

text \<open>
  The scenario of the specification: the override \<^verbatim>\<open>https://a\<close> on the page
  \<^verbatim>\<open>https://b\<close> gives the candidates \<^verbatim>\<open>https://a\<close>, \<^verbatim>\<open>https://b\<close> and the
  empty string, of which only the second answers. The first is fetched and fails, the second
  is fetched and its body returned, the third is never fetched.
\<close>

theorem apiGet_first_success_witness:
  "tryDeriveBackendURLs (Some ''https://a'') (Some (''https:'', ''b''))
     = [''https://a'', ''https://b'', '''']
   \<and> apiGet
     \<lparr>VITE_BACKEND_URL = Some ''https://a'', window_location = Some (''https:'', ''b''),
      fetch = (\<lambda>u. if u = ''https://b/api/menu''
                    then Response True 200
                           (Inr (JObj [(''items'', JArr [JObj [(''key'', JStr ''frontend''),
                                                               (''label'', JStr ''Frontend'')]])]))
                    else Rejected ''Failed to fetch'')\<rparr>
     ''/api/menu''
   = ([''https://a/api/menu'', ''https://b/api/menu''],
      Inr (JObj [(''items'', JArr [JObj [(''key'', JStr ''frontend''),
                                         (''label'', JStr ''Frontend'')]])]))"
proof -
  have bases: "tryDeriveBackendURLs (Some ''https://a'') (Some (''https:'', ''b''))
                 = [''https://a'', ''https://b'', '''']"
    by code_simp
  show ?thesis
    using apiGet_first_success[of 1
        "\<lparr>VITE_BACKEND_URL = Some ''https://a'', window_location = Some (''https:'', ''b''),
          fetch = (\<lambda>u. if u = ''https://b/api/menu''
                    then Response True 200
                           (Inr (JObj [(''items'', JArr [JObj [(''key'', JStr ''frontend''),
                                                               (''label'', JStr ''Frontend'')]])]))
                    else Rejected ''Failed to fetch'')\<rparr>"
        "''/api/menu''" 200
        "JObj [(''items'', JArr [JObj [(''key'', JStr ''frontend''),
                                       (''label'', JStr ''Frontend'')]])]"]
    by (simp add: bases)
qed

text \<open>
  Claim C5: let the candidates be the list the resolver returns for the call, of length
  \<open>N\<close>. When no candidate succeeds (its fetch throws, its status is not ok, or its body
  does not parse), \<^verbatim>\<open>apiGet\<close> fetches every candidate's URL once, in candidate order,
  which are \<open>N\<close> fetches, and then throws one error: the failure recorded for the last
  candidate.
\<close>

theorem apiGet_all_fail:
  assumes "\<forall>b\<in>set (tryDeriveBackendURLs (VITE_BACKEND_URL rt) (window_location rt)).
             \<not> succeeds (fetch rt (b @ path))"
  shows "apiGet rt path =
           (map (\<lambda>b. b @ path) (tryDeriveBackendURLs (VITE_BACKEND_URL rt) (window_location rt)),
            Inl (failure_of
                   (fetch rt (last (tryDeriveBackendURLs (VITE_BACKEND_URL rt) (window_location rt))
                              @ path))))
     \<and> length (fst (apiGet rt path))
         = length (tryDeriveBackendURLs (VITE_BACKEND_URL rt) (window_location rt))"
  using apiGet_loop_all_fail[OF assms, of None]
    tryDerive_nonempty[of "VITE_BACKEND_URL rt" "window_location rt"]
  by (simp add: apiGet_def)

text \<open>
  On the same three candidates: the first answers 503, the second answers 200 with a body
  that does not parse, and the fetch of the third throws. All three are fetched in order, and
  the error thrown is the one recorded last.
\<close>

theorem apiGet_all_fail_witness:
  "apiGet
     \<lparr>VITE_BACKEND_URL = Some ''https://a'', window_location = Some (''https:'', ''b''),
      fetch = (\<lambda>u. if u = ''https://a/api/menu''
                      then Response False 503 (Inl ''Unexpected token'')
                    else if u = ''https://b/api/menu''
                      then Response True 200 (Inl ''Unexpected token'')
                    else Rejected ''Failed to fetch'')\<rparr>
     ''/api/menu''
   = ([''https://a/api/menu'', ''https://b/api/menu'', ''/api/menu''],
      Inl (Thrown ''Failed to fetch''))"
proof -
  have bases: "tryDeriveBackendURLs (Some ''https://a'') (Some (''https:'', ''b''))
                 = [''https://a'', ''https://b'', '''']"
    by code_simp
  show ?thesis
    using apiGet_all_fail[of
        "\<lparr>VITE_BACKEND_URL = Some ''https://a'', window_location = Some (''https:'', ''b''),
          fetch = (\<lambda>u. if u = ''https://a/api/menu''
                      then Response False 503 (Inl ''Unexpected token'')
                    else if u = ''https://b/api/menu''
                      then Response True 200 (Inl ''Unexpected token'')
                    else Rejected ''Failed to fetch'')\<rparr>"
        "''/api/menu''"]
    by (simp add: bases)
qed

text \<open>
  Claim C10: the candidate list is never empty, so every call of \<^verbatim>\<open>apiGet\<close> fetches at
  least one URL, and it never throws the default error \<^verbatim>\<open>No backend reachable\<close>: when
  the loop ends without a success, \<^verbatim>\<open>lastErr\<close> holds a recorded failure.
\<close>

theorem apiGet_attempts_once_and_default_error_unreachable:
  "tryDeriveBackendURLs (VITE_BACKEND_URL rt) (window_location rt) \<noteq> []
   \<and> fst (apiGet rt path) \<noteq> []
   \<and> snd (apiGet rt path) \<noteq> Inl NoBackendReachable"
  by (simp add: apiGet_def tryDerive_nonempty apiGet_loop_trace_nonempty apiGet_loop_error_first)

section \<open>The navigation state machine\<close>

text \<open>
  Claim C7: \<^verbatim>\<open>goBack\<close> changes nothing but the stage; from frontend-projects it goes
  to frontend-tech, from uiux-gallery to uiux-focus, and from frontend-tech, uiux-focus,
  reviews and contact to menu.
\<close>

theorem goBack_targets:
  "goBack (s\<lparr>stage := FrontendProjects\<rparr>) = s\<lparr>stage := FrontendTech\<rparr>
   \<and> goBack (s\<lparr>stage := UiuxGallery\<rparr>) = s\<lparr>stage := UiuxFocus\<rparr>
   \<and> goBack (s\<lparr>stage := FrontendTech\<rparr>) = s\<lparr>stage := Menu\<rparr>
   \<and> goBack (s\<lparr>stage := UiuxFocus\<rparr>) = s\<lparr>stage := Menu\<rparr>
   \<and> goBack (s\<lparr>stage := Reviews\<rparr>) = s\<lparr>stage := Menu\<rparr>
   \<and> goBack (s\<lparr>stage := Contact\<rparr>) = s\<lparr>stage := Menu\<rparr>"
  by (simp add: goBack_def)

lemma prop_or_empty_None_iff: "prop_or_empty d k = None \<longleftrightarrow> d = JNull"
  by (cases d) (auto split: option.splits)

text \<open>
  Claim C6, as the specification has it: a confirm with a tech selected goes to
  frontend-projects if and only if the projects fetch succeeds. The read of
  \<^verbatim>\<open>data.projects\<close> stands inside the same \<^verbatim>\<open>try\<close> as the fetch: when the backend
  answers 200 with the body \<^verbatim>\<open>null\<close>, \<^verbatim>\<open>apiGet\<close> returns it, the read throws, and
  the stage stays frontend-tech with the error set.
\<close>

theorem confirmTech_null_body_stays:
  "snd (apiGet \<lparr>VITE_BACKEND_URL = None, window_location = Some (''http:'', ''localhost:3000''),
               fetch = (\<lambda>u. Response True 200 (Inr JNull))\<rparr>
         (''/api/projects?tech='' @ encodeURIComponent ''React'')) = Inr JNull
   \<and> stage (snd (confirmTech
         \<lparr>VITE_BACKEND_URL = None, window_location = Some (''http:'', ''localhost:3000''),
          fetch = (\<lambda>u. Response True 200 (Inr JNull))\<rparr>
         (initial_state\<lparr>stage := FrontendTech, selectedTech := Some ''React''\<rparr>)))
       = FrontendTech
   \<and> error (snd (confirmTech
         \<lparr>VITE_BACKEND_URL = None, window_location = Some (''http:'', ''localhost:3000''),
          fetch = (\<lambda>u. Response True 200 (Inr JNull))\<rparr>
         (initial_state\<lparr>stage := FrontendTech, selectedTech := Some ''React''\<rparr>)))
       = ''Could not load projects''"
  by code_simp

text \<open>
  Claim C6, amended: in stage frontend-tech a confirm with no tech selected (\<^verbatim>\<open>null\<close> or
  the empty string) leaves the whole state unchanged and fetches nothing; a confirm with a
  tech selected fetches what \<^verbatim>\<open>apiGet\<close> fetches for the projects path, and goes to
  frontend-projects if and only if that call returns a body other than \<^verbatim>\<open>null\<close>;
  otherwise the stage remains frontend-tech and the error
  \<^verbatim>\<open>Could not load projects\<close> is set.
\<close>

theorem confirmTech_transition:
  assumes "stage s = FrontendTech"
  shows "(selectedTech s = None \<or> selectedTech s = Some [] \<longrightarrow> confirmTech rt s = ([], s))
   \<and> (selectedTech s = Some t \<and> t \<noteq> [] \<longrightarrow>
        fst (confirmTech rt s) = fst (apiGet rt (''/api/projects?tech='' @ encodeURIComponent t))
        \<and> (stage (snd (confirmTech rt s)) = FrontendProjects \<longleftrightarrow>
             (\<exists>data. snd (apiGet rt (''/api/projects?tech='' @ encodeURIComponent t)) = Inr data
                     \<and> data \<noteq> JNull))
        \<and> (stage (snd (confirmTech rt s)) \<noteq> FrontendProjects \<longrightarrow>
             stage (snd (confirmTech rt s)) = FrontendTech
             \<and> error (snd (confirmTech rt s)) = ''Could not load projects''))"
  using assms
  by (auto simp: confirmTech_def Let_def prop_or_empty_None_iff
      split: prod.splits sum.splits option.splits)

theorem confirmTech_transition_witness:
  "confirmTech \<lparr>VITE_BACKEND_URL = None, window_location = Some (''http:'', ''localhost:3000''),
               fetch = (\<lambda>u. Rejected ''Failed to fetch'')\<rparr>
     (initial_state\<lparr>stage := FrontendTech\<rparr>) = ([], initial_state\<lparr>stage := FrontendTech\<rparr>)
   \<and> stage (snd (confirmTech
         \<lparr>VITE_BACKEND_URL = None, window_location = Some (''http:'', ''localhost:3000''),
          fetch = (\<lambda>u. Response True 200
                          (Inr (JObj [(''projects'', JArr [JObj [(''title'', JStr ''X'')]])])))\<rparr>
         (initial_state\<lparr>stage := FrontendTech, selectedTech := Some ''React''\<rparr>)))
       = FrontendProjects"
proof -
  have a: "snd (apiGet
         \<lparr>VITE_BACKEND_URL = None, window_location = Some (''http:'', ''localhost:3000''),
          fetch = (\<lambda>u. Response True 200
                          (Inr (JObj [(''projects'', JArr [JObj [(''title'', JStr ''X'')]])])))\<rparr>
         (''/api/projects?tech='' @ encodeURIComponent ''React''))
       = Inr (JObj [(''projects'', JArr [JObj [(''title'', JStr ''X'')]])])"
    by code_simp
  have b: "selectedTech (initial_state\<lparr>stage := FrontendTech\<rparr>) = None"
    by (simp add: initial_state_def)
  show ?thesis
    using confirmTech_transition[of "initial_state\<lparr>stage := FrontendTech\<rparr>"
        "\<lparr>VITE_BACKEND_URL = None, window_location = Some (''http:'', ''localhost:3000''),
               fetch = (\<lambda>u. Rejected ''Failed to fetch'')\<rparr>" "''React''"]
      confirmTech_transition[of
        "initial_state\<lparr>stage := FrontendTech, selectedTech := Some ''React''\<rparr>"
        "\<lparr>VITE_BACKEND_URL = None, window_location = Some (''http:'', ''localhost:3000''),
          fetch = (\<lambda>u. Response True 200
                          (Inr (JObj [(''projects'', JArr [JObj [(''title'', JStr ''X'')]])])))\<rparr>"
        "''React''"] a b
    by simp
qed

text \<open>
  Neither confirm handler assigns \<^verbatim>\<open>error\<close> anything but its own message, so an
  error that is set stays set.
\<close>

lemma confirmTech_never_clears_error:
  "error s \<noteq> [] \<Longrightarrow> error (snd (confirmTech rt s)) \<noteq> []"
  by (auto simp: confirmTech_def Let_def split: prod.splits sum.splits option.splits)

lemma confirmFocus_never_clears_error:
  "error s \<noteq> [] \<Longrightarrow> error (snd (confirmFocus rt s)) \<noteq> []"
  by (auto simp: confirmFocus_def Let_def split: prod.splits sum.splits option.splits)

text \<open>
  Claim C8 says that a confirm whose fetch succeeds clears an error left by an earlier
  failure. Neither \<^verbatim>\<open>confirmTech\<close> nor \<^verbatim>\<open>confirmFocus\<close> ever resets
  \<^verbatim>\<open>error\<close>; only \<^verbatim>\<open>bootstrap\<close> does, before it fetches. Here a first confirm
  fails and sets the error; a second confirm, from the state with that error, succeeds and
  reaches frontend-projects with the error still set; the same happens in
  \<^verbatim>\<open>confirmFocus\<close>.
\<close>

theorem confirm_success_keeps_error:
  "error (snd (confirmTech
      \<lparr>VITE_BACKEND_URL = None, window_location = Some (''http:'', ''localhost:3000''),
       fetch = (\<lambda>u. Rejected ''Failed to fetch'')\<rparr>
      (initial_state\<lparr>stage := FrontendTech, selectedTech := Some ''React'', loading := False\<rparr>)))
     = ''Could not load projects''
   \<and> stage (snd (confirmTech
      \<lparr>VITE_BACKEND_URL = None, window_location = Some (''http:'', ''localhost:3000''),
       fetch = (\<lambda>u. Response True 200
                       (Inr (JObj [(''projects'', JArr [JObj [(''title'', JStr ''X'')]])])))\<rparr>
      (initial_state\<lparr>stage := FrontendTech, selectedTech := Some ''React'', loading := False,
                     error := ''Could not load projects''\<rparr>)))
     = FrontendProjects
   \<and> error (snd (confirmTech
      \<lparr>VITE_BACKEND_URL = None, window_location = Some (''http:'', ''localhost:3000''),
       fetch = (\<lambda>u. Response True 200
                       (Inr (JObj [(''projects'', JArr [JObj [(''title'', JStr ''X'')]])])))\<rparr>
      (initial_state\<lparr>stage := FrontendTech, selectedTech := Some ''React'', loading := False,
                     error := ''Could not load projects''\<rparr>)))
     = ''Could not load projects''
   \<and> stage (snd (confirmFocus
      \<lparr>VITE_BACKEND_URL = None, window_location = Some (''http:'', ''localhost:3000''),
       fetch = (\<lambda>u. Response True 200
                       (Inr (JObj [(''items'', JArr [JObj [(''title'', JStr ''Y'')]])])))\<rparr>
      (initial_state\<lparr>stage := UiuxFocus, selectedFocus := Some ''Mobile'', loading := False,
                     error := ''Could not load gallery''\<rparr>)))
     = UiuxGallery
   \<and> error (snd (confirmFocus
      \<lparr>VITE_BACKEND_URL = None, window_location = Some (''http:'', ''localhost:3000''),
       fetch = (\<lambda>u. Response True 200
                       (Inr (JObj [(''items'', JArr [JObj [(''title'', JStr ''Y'')]])])))\<rparr>
      (initial_state\<lparr>stage := UiuxFocus, selectedFocus := Some ''Mobile'', loading := False,
                     error := ''Could not load gallery''\<rparr>)))
     = ''Could not load gallery''"
  by code_simp

section \<open>Bootstrap\<close>

lemma bootstrap_failed:
  assumes "isl (snd (apiGet rt ''/api/menu'')) \<or> isl (snd (apiGet rt ''/api/frontend/tech''))
     \<or> isl (snd (apiGet rt ''/api/design/focus'')) \<or> isl (snd (apiGet rt ''/api/reviews''))
     \<or> isl (snd (apiGet rt ''/api/contact''))"
  shows "bootstrap rt mounted s = s\<lparr>loading := False, error := bootstrap_error\<rparr>"
  using assms
  by (cases "snd (apiGet rt ''/api/menu'')"; cases "snd (apiGet rt ''/api/frontend/tech'')";
      cases "snd (apiGet rt ''/api/design/focus'')"; cases "snd (apiGet rt ''/api/reviews'')";
      cases "snd (apiGet rt ''/api/contact'')")
     (simp_all add: bootstrap_def Let_def)

lemma bootstrap_succeeded:
  assumes "snd (apiGet rt ''/api/menu'') = Inr menuRes"
    "prop_or_empty menuRes ''items'' = Some m"
    "snd (apiGet rt ''/api/frontend/tech'') = Inr techRes"
    "prop_or_empty techRes ''items'' = Some t"
    "snd (apiGet rt ''/api/design/focus'') = Inr focusRes"
    "prop_or_empty focusRes ''items'' = Some f"
    "snd (apiGet rt ''/api/reviews'') = Inr reviewsRes"
    "prop_or_empty reviewsRes ''items'' = Some r"
    "snd (apiGet rt ''/api/contact'') = Inr contactRes"
    "prop_or_empty contactRes ''items'' = Some c"
  shows "bootstrap rt True s =
      s\<lparr>menuItems := m, techItems := t, designFocus := f, reviews := r, contacts := c,
        loading := False, error := ''''\<rparr>"
  using assms by (simp add: bootstrap_def Let_def)

text \<open>
  Claim C2, as the specification has it: a failed fetch empties its own collection only, and
  the results of the fetches that succeeded are still stored. The five calls are joined by
  \<^verbatim>\<open>Promise.all\<close>, which rejects when one of them does, so no setter runs: here the
  menu fetch succeeds with one item and the other four fail, and the menu collection stays
  empty.
\<close>

theorem bootstrap_drops_successful_results:
  "snd (apiGet \<lparr>VITE_BACKEND_URL = None, window_location = Some (''http:'', ''localhost:3000''),
               fetch = (\<lambda>u. if u = ''http://localhost:8000/api/menu''
                             then Response True 200
                                    (Inr (JObj [(''items'', JArr [JStr ''frontend''])]))
                             else Rejected ''Failed to fetch'')\<rparr> ''/api/menu'')
     = Inr (JObj [(''items'', JArr [JStr ''frontend''])])
   \<and> menuItems (bootstrap
        \<lparr>VITE_BACKEND_URL = None, window_location = Some (''http:'', ''localhost:3000''),
         fetch = (\<lambda>u. if u = ''http://localhost:8000/api/menu''
                       then Response True 200
                              (Inr (JObj [(''items'', JArr [JStr ''frontend''])]))
                       else Rejected ''Failed to fetch'')\<rparr> True initial_state) = JArr []
   \<and> error (bootstrap
        \<lparr>VITE_BACKEND_URL = None, window_location = Some (''http:'', ''localhost:3000''),
         fetch = (\<lambda>u. if u = ''http://localhost:8000/api/menu''
                       then Response True 200
                              (Inr (JObj [(''items'', JArr [JStr ''frontend''])]))
                       else Rejected ''Failed to fetch'')\<rparr> True initial_state)
       = ''Unable to reach backend. Set VITE_BACKEND_URL or retry in a moment.''"
  by code_simp

text \<open>
  Claim C2, amended: bootstrap is all or nothing. When at least one of the five calls fails,
  no collection is changed (each keeps the value it had, the empty sequence at session
  start), also those whose fetch succeeded, and the one error notice is set. When all five
  calls return a body whose \<^verbatim>\<open>items\<close> can be read and the component is still
  mounted, every collection is set to its body's \<^verbatim>\<open>items\<close> (the empty sequence when
  that is missing or falsy) and the error stays cleared. In both cases loading ends.
\<close>

theorem bootstrap_all_or_nothing:
  "(isl (snd (apiGet rt ''/api/menu'')) \<or> isl (snd (apiGet rt ''/api/frontend/tech''))
     \<or> isl (snd (apiGet rt ''/api/design/focus'')) \<or> isl (snd (apiGet rt ''/api/reviews''))
     \<or> isl (snd (apiGet rt ''/api/contact''))
    \<longrightarrow> bootstrap rt mounted s = s\<lparr>loading := False, error := bootstrap_error\<rparr>)
   \<and> (snd (apiGet rt ''/api/menu'') = Inr menuRes
      \<and> prop_or_empty menuRes ''items'' = Some m
      \<and> snd (apiGet rt ''/api/frontend/tech'') = Inr techRes
      \<and> prop_or_empty techRes ''items'' = Some t
      \<and> snd (apiGet rt ''/api/design/focus'') = Inr focusRes
      \<and> prop_or_empty focusRes ''items'' = Some f
      \<and> snd (apiGet rt ''/api/reviews'') = Inr reviewsRes
      \<and> prop_or_empty reviewsRes ''items'' = Some r
      \<and> snd (apiGet rt ''/api/contact'') = Inr contactRes
      \<and> prop_or_empty contactRes ''items'' = Some c
    \<longrightarrow> bootstrap rt True s =
          s\<lparr>menuItems := m, techItems := t, designFocus := f, reviews := r, contacts := c,
            loading := False, error := ''''\<rparr>)"
  using bootstrap_failed[of rt mounted s]
    bootstrap_succeeded[of rt menuRes m techRes t focusRes f reviewsRes r contactRes c s]
  by blast

theorem bootstrap_all_or_nothing_witness:
  "bootstrap \<lparr>VITE_BACKEND_URL = None, window_location = Some (''http:'', ''localhost:3000''),
              fetch = (\<lambda>u. if u = ''http://localhost:8000/api/menu''
                            then Response True 200
                                   (Inr (JObj [(''items'', JArr [JStr ''frontend''])]))
                            else Rejected ''Failed to fetch'')\<rparr> True initial_state
     = initial_state\<lparr>loading := False, error := bootstrap_error\<rparr>
   \<and> bootstrap \<lparr>VITE_BACKEND_URL = None, window_location = Some (''http:'', ''localhost:3000''),
              fetch = (\<lambda>u. Response True 200
                              (Inr (JObj [(''items'', JArr [JStr ''frontend''])])))\<rparr>
         True initial_state
     = initial_state\<lparr>menuItems := JArr [JStr ''frontend''], techItems := JArr [JStr ''frontend''],
         designFocus := JArr [JStr ''frontend''], reviews := JArr [JStr ''frontend''],
         contacts := JArr [JStr ''frontend''], loading := False, error := ''''\<rparr>"
proof -
  let ?down = "\<lparr>VITE_BACKEND_URL = None, window_location = Some (''http:'', ''localhost:3000''),
              fetch = (\<lambda>u. if u = ''http://localhost:8000/api/menu''
                            then Response True 200
                                   (Inr (JObj [(''items'', JArr [JStr ''frontend''])]))
                            else Rejected ''Failed to fetch'')\<rparr>"
  let ?up = "\<lparr>VITE_BACKEND_URL = None, window_location = Some (''http:'', ''localhost:3000''),
              fetch = (\<lambda>u. Response True 200
                              (Inr (JObj [(''items'', JArr [JStr ''frontend''])])))\<rparr>"
  let ?body = "JObj [(''items'', JArr [JStr ''frontend''])]"
  have a: "isl (snd (apiGet ?down ''/api/frontend/tech''))" by code_simp
  have u: "snd (apiGet ?up path) = Inr ?body" for path
    by (simp add: apiGet_def tryDeriveBackendURLs_def urls_pushed_def byPort_def
        stripTrailingSlash_def array_from_set_def set_add_def)
  have p: "prop_or_empty ?body ''items'' = Some (JArr [JStr ''frontend''])" by simp
  show ?thesis
    using bootstrap_all_or_nothing[of ?down True initial_state]
      bootstrap_all_or_nothing[of ?up True initial_state ?body "JArr [JStr ''frontend'']"
        ?body "JArr [JStr ''frontend'']" ?body "JArr [JStr ''frontend'']"
        ?body "JArr [JStr ''frontend'']" ?body "JArr [JStr ''frontend'']"] a u p
    by simp
qed

end
